theory Spec2Isabelle
  imports Main "HOL-Library.Word"
begin

section \<open>JavaScript strings\<close>

text \<open>
  A JavaScript string is a sequence of UTF-16 code units; \<open>.length\<close> counts code units and
  a regular expression without the \<open>u\<close> flag matches code unit by code unit. The empty
  string is the only falsy string.
\<close>

type_synonym code_unit = "16 word"
type_synonym jsstring = "code_unit list"

text \<open>A string literal of the source (all of them are ASCII).\<close>

definition lit :: "string \<Rightarrow> jsstring" where
  "lit s = map (\<lambda>c. of_nat (of_char c)) s"

definition truthy :: "jsstring \<Rightarrow> bool" where
  "truthy s = (s \<noteq> [])"

section \<open>The regular expression of the email check\<close>

text \<open>
  The class \<open>\s\<close> of ECMAScript: WhiteSpace (TAB, VT, FF, SP, NBSP, ZWNBSP and the
  Unicode space separators) and LineTerminator (LF, CR, LS, PS).
\<close>

definition is_space :: "code_unit \<Rightarrow> bool" where
  "is_space c =
     ((0x0009 \<le> c \<and> c \<le> 0x000D) \<or> c = 0x0020 \<or> c = 0x00A0 \<or> c = 0x1680 \<or>
      (0x2000 \<le> c \<and> c \<le> 0x200A) \<or> c = 0x2028 \<or> c = 0x2029 \<or> c = 0x202F \<or>
      c = 0x205F \<or> c = 0x3000 \<or> c = 0xFEFF)"

text \<open>The class \<open>[^\s@]\<close>.\<close>

definition not_space_at :: "code_unit \<Rightarrow> bool" where
  "not_space_at c = (\<not> is_space c \<and> c \<noteq> 0x0040)"

text \<open>
  The pattern \<open>/^[^\s@]+@[^\s@]+\.[^\s@]+$/\<close> is a sequence of items between the two
  anchors: a literal code unit, or one or more code units of a class. \<open>rx_match\<close> is the
  backtracking matcher: \<open>+\<close> takes one code unit of the class and then either goes on
  taking or hands over to the rest of the pattern; the end of the pattern is \<open>$\<close>, the
  end of the input.
\<close>

datatype rx_item = Literal code_unit | OneOrMore "code_unit \<Rightarrow> bool"

fun rx_match :: "rx_item list \<Rightarrow> jsstring \<Rightarrow> bool" where
  "rx_match [] s = (s = [])"
| "rx_match (Literal c # r) [] = False"
| "rx_match (Literal c # r) (x # xs) = (x = c \<and> rx_match r xs)"
| "rx_match (OneOrMore P # r) [] = False"
| "rx_match (OneOrMore P # r) (x # xs) =
     (P x \<and> (rx_match (OneOrMore P # r) xs \<or> rx_match r xs))"

definition email_pattern :: "rx_item list" where
  "email_pattern =
     [OneOrMore not_space_at, Literal 0x0040, OneOrMore not_space_at, Literal 0x002E,
      OneOrMore not_space_at]"

definition email_regex_test :: "jsstring \<Rightarrow> bool" where
  "email_regex_test s = rx_match email_pattern s"

section \<open>Effects of an event handler\<close>

text \<open>
  A handler run is the sequence of what it does, in program order (calls of state setters
  and calls of the outside world), and how it completes: normally, or with a thrown value
  that nothing inside caught. A value thrown by the provider is an \<open>Error\<close> object with
  its message, or anything else.
\<close>

datatype thrown = ErrorObject jsstring | OtherValue

datatype effect =
    preventDefault
  | createUserWithEmailAndPassword jsstring jsstring
  | signInWithEmailAndPassword jsstring jsstring
  | signInWithPopup
  | signOut
  | setTimeout nat
  | routerPush jsstring
  | routerReplace jsstring

datatype 'u step = Update 'u | Effect effect

type_synonym 'u run = "'u step list \<times> thrown option"

text \<open>
  The provider is the environment: for each of its operations it says whether the awaited
  promise resolves (\<open>None\<close>) or rejects with a value.
\<close>

type_synonym provider = "effect \<Rightarrow> thrown option"

definition skip :: "'u run" where
  "skip = ([], None)"

definition set_state :: "'u \<Rightarrow> 'u run" where
  "set_state u = ([Update u], None)"

definition perform :: "effect \<Rightarrow> 'u run" where
  "perform e = ([Effect e], None)"

definition await_provider :: "provider \<Rightarrow> effect \<Rightarrow> 'u run" where
  "await_provider p e = ([Effect e], p e)"

text \<open>Statement sequencing: a throw in the first part skips the second.\<close>

definition then_run :: "'u run \<Rightarrow> 'u run \<Rightarrow> 'u run" where
  "then_run a b =
     (case snd a of None \<Rightarrow> (fst a @ fst b, snd b) | Some t \<Rightarrow> a)"

fun block :: "'u run list \<Rightarrow> 'u run" where
  "block [] = skip"
| "block (a # rest) = then_run a (block rest)"

text \<open>\<open>try { body } catch (error) { handler }\<close>\<close>

definition try_catch :: "'u run \<Rightarrow> (thrown \<Rightarrow> 'u run) \<Rightarrow> 'u run" where
  "try_catch body handler =
     (case snd body of
        None \<Rightarrow> body
      | Some t \<Rightarrow> (fst body @ fst (handler t), snd (handler t)))"

text \<open>
  \<open>try { body } finally { fin }\<close>: the final block always runs; its own throw replaces the
  completion of the body.
\<close>

definition try_finally :: "'u run \<Rightarrow> 'u run \<Rightarrow> 'u run" where
  "try_finally body fin =
     (fst body @ fst fin, (case snd fin of None \<Rightarrow> snd body | Some t \<Rightarrow> Some t))"

subsection \<open>Reading a run\<close>

fun is_provider_call :: "'u step \<Rightarrow> bool" where
  "is_provider_call (Effect (createUserWithEmailAndPassword e pw)) = True"
| "is_provider_call (Effect (signInWithEmailAndPassword e pw)) = True"
| "is_provider_call (Effect signInWithPopup) = True"
| "is_provider_call (Effect signOut) = True"
| "is_provider_call _ = False"

fun is_navigation :: "'u step \<Rightarrow> bool" where
  "is_navigation (Effect (routerPush path)) = True"
| "is_navigation (Effect (routerReplace path)) = True"
| "is_navigation _ = False"

definition provider_calls :: "'u step list \<Rightarrow> 'u step list" where
  "provider_calls steps = filter is_provider_call steps"

definition navigations :: "'u step list \<Rightarrow> 'u step list" where
  "navigations steps = filter is_navigation steps"

text \<open>What a handler has done when it reaches its first provider call.\<close>

definition before_provider_call :: "'u step list \<Rightarrow> 'u step list" where
  "before_provider_call steps = takeWhile (\<lambda>x. \<not> is_provider_call x) steps"

text \<open>What a handler has done when it reaches a given effect.\<close>

definition before_effect :: "effect \<Rightarrow> 'u step list \<Rightarrow> 'u step list" where
  "before_effect e steps = takeWhile (\<lambda>x. x \<noteq> Effect e) steps"

text \<open>Two providers: one whose operations all resolve, one whose operations all reject.\<close>

definition resolving :: provider where
  "resolving e = None"

definition rejecting :: "thrown \<Rightarrow> provider" where
  "rejecting t e = Some t"

section \<open>The login form (src/components/Login.tsx)\<close>

record LoginFormData =
  email :: jsstring
  password :: jsstring

datatype field = Email | Password

text \<open>
  \<open>Partial<LoginFormData>\<close>: each of the two keys is absent (\<open>None\<close>), present with the
  value \<open>undefined\<close> (\<open>Some None\<close>), or present with a message.
\<close>

type_synonym entry = "jsstring option option"

record validation_errors =
  email_entry :: entry
  password_entry :: entry

definition no_errors :: validation_errors where
  "no_errors = \<lparr>email_entry = None, password_entry = None\<rparr>"

text \<open>\<open>o[name]\<close> and \<open>{...o, [name]: x}\<close>\<close>

fun get_entry :: "validation_errors \<Rightarrow> field \<Rightarrow> entry" where
  "get_entry e Email = email_entry e"
| "get_entry e Password = password_entry e"

fun set_entry :: "validation_errors \<Rightarrow> field \<Rightarrow> entry \<Rightarrow> validation_errors" where
  "set_entry e Email x = e\<lparr>email_entry := x\<rparr>"
| "set_entry e Password x = e\<lparr>password_entry := x\<rparr>"

datatype auth_mode = signIn | signUp

record login_state =
  formData :: LoginFormData
  errors :: validation_errors
  isLoading :: bool
  isGoogleLoading :: bool
  isRedirecting :: bool
  successMessage :: jsstring
  authError :: jsstring
  authMode :: auth_mode

datatype login_update =
    setFormData LoginFormData
  | setFormDataField field jsstring
  | setErrors validation_errors
  | setErrorsUndefined field
  | setIsLoading bool
  | setIsGoogleLoading bool
  | setIsRedirecting bool
  | setSuccessMessage jsstring
  | setAuthError jsstring

definition initial_login_state :: login_state where
  "initial_login_state =
     \<lparr>formData = \<lparr>email = [], password = []\<rparr>, errors = no_errors, isLoading = False,
      isGoogleLoading = False, isRedirecting = False, successMessage = [], authError = [],
      authMode = signIn\<rparr>"

text \<open>The form as the tests of the repository fill it in.\<close>

definition filled_login_state :: login_state where
  "filled_login_state =
     initial_login_state
       \<lparr>formData := \<lparr>email = lit ''test@example.com'', password = lit ''password123''\<rparr>\<rparr>"

text \<open>
  What React does with a setter call. \<open>setFormDataField\<close> is the functional update
  \<open>(prev) => ({...prev, [name]: value})\<close> and \<open>setErrorsUndefined\<close> is
  \<open>(prev) => ({...prev, [name]: undefined})\<close>; the others store the given value.
\<close>

fun apply_login_update :: "login_update \<Rightarrow> login_state \<Rightarrow> login_state" where
  "apply_login_update (setFormData d) st = st\<lparr>formData := d\<rparr>"
| "apply_login_update (setFormDataField Email v) st =
     st\<lparr>formData := (formData st)\<lparr>email := v\<rparr>\<rparr>"
| "apply_login_update (setFormDataField Password v) st =
     st\<lparr>formData := (formData st)\<lparr>password := v\<rparr>\<rparr>"
| "apply_login_update (setErrors e) st = st\<lparr>errors := e\<rparr>"
| "apply_login_update (setErrorsUndefined f) st =
     st\<lparr>errors := set_entry (errors st) f (Some None)\<rparr>"
| "apply_login_update (setIsLoading b) st = st\<lparr>isLoading := b\<rparr>"
| "apply_login_update (setIsGoogleLoading b) st = st\<lparr>isGoogleLoading := b\<rparr>"
| "apply_login_update (setIsRedirecting b) st = st\<lparr>isRedirecting := b\<rparr>"
| "apply_login_update (setSuccessMessage m) st = st\<lparr>successMessage := m\<rparr>"
| "apply_login_update (setAuthError m) st = st\<lparr>authError := m\<rparr>"

fun apply_login_step :: "login_state \<Rightarrow> login_update step \<Rightarrow> login_state" where
  "apply_login_step st (Update u) = apply_login_update u st"
| "apply_login_step st (Effect e) = st"

definition login_after :: "login_state \<Rightarrow> login_update step list \<Rightarrow> login_state" where
  "login_after st steps = foldl apply_login_step st steps"

subsection \<open>validateForm\<close>

text \<open>The object \<open>newErrors\<close> as \<open>validateForm\<close> builds it from the form data.\<close>

definition newErrors :: "LoginFormData \<Rightarrow> validation_errors" where
  "newErrors d =
     (let e0 = no_errors;
          e1 = (if \<not> truthy (email d)
                then set_entry e0 Email (Some (Some (lit ''Email is required'')))
                else if \<not> email_regex_test (email d)
                then set_entry e0 Email (Some (Some (lit ''Please enter a valid email'')))
                else e0);
          e2 = (if \<not> truthy (password d)
                then set_entry e1 Password (Some (Some (lit ''Password is required'')))
                else if length (password d) < 6
                then set_entry e1 Password
                       (Some (Some (lit ''Password must be at least 6 characters'')))
                else e1)
      in e2)"

text \<open>\<open>Object.keys(o).length\<close>\<close>

definition keys_length :: "validation_errors \<Rightarrow> nat" where
  "keys_length e = length (filter (\<lambda>f. get_entry e f \<noteq> None) [Email, Password])"

text \<open>\<open>validateForm\<close> calls \<open>setErrors(newErrors)\<close> and returns whether there is no key.\<close>

definition validateForm :: "login_state \<Rightarrow> login_update run \<times> bool" where
  "validateForm s =
     (let e = newErrors (formData s) in (set_state (setErrors e), keys_length e = 0))"

subsection \<open>handleChange\<close>

text \<open>An entry of the errors object used as a condition.\<close>

fun entry_truthy :: "entry \<Rightarrow> bool" where
  "entry_truthy (Some (Some m)) = truthy m"
| "entry_truthy _ = False"

definition handleChange :: "login_state \<Rightarrow> field \<Rightarrow> jsstring \<Rightarrow> login_update run" where
  "handleChange s name v =
     block [set_state (setFormDataField name v),
            (if entry_truthy (get_entry (errors s) name)
             then set_state (setErrorsUndefined name) else skip)]"

subsection \<open>handleSubmit and handleGoogleSignIn\<close>

definition handleSubmit :: "login_state \<Rightarrow> provider \<Rightarrow> login_update run" where
  "handleSubmit s p =
     block
       [perform preventDefault,
        set_state (setSuccessMessage []),
        set_state (setAuthError []),
        set_state (setIsRedirecting False),
        fst (validateForm s),
        (if \<not> snd (validateForm s) then skip
         else block
           [set_state (setIsLoading True),
            try_finally
              (try_catch
                 (block
                    [(if authMode s = signUp
                      then block
                        [await_provider p
                           (createUserWithEmailAndPassword (email (formData s))
                              (password (formData s))),
                         set_state (setSuccessMessage (lit ''Account created!''))]
                      else block
                        [await_provider p
                           (signInWithEmailAndPassword (email (formData s))
                              (password (formData s))),
                         set_state (setSuccessMessage (lit ''Login successful!''))]),
                     set_state (setFormData \<lparr>email = [], password = []\<rparr>),
                     set_state (setIsRedirecting True),
                     perform (setTimeout 1000),
                     perform (routerPush (lit ''/dashboard''))])
                 (\<lambda>error.
                    set_state
                      (setAuthError
                         (case error of
                            ErrorObject message \<Rightarrow> message
                          | OtherValue \<Rightarrow> lit ''Login failed. Please try again.''))))
              (set_state (setIsLoading False))])]"

definition handleGoogleSignIn :: "provider \<Rightarrow> login_update run" where
  "handleGoogleSignIn p =
     block
       [set_state (setSuccessMessage []),
        set_state (setAuthError []),
        set_state (setIsRedirecting False),
        set_state (setIsGoogleLoading True),
        try_finally
          (try_catch
             (block
                [await_provider p signInWithPopup,
                 set_state (setSuccessMessage (lit ''Login successful!'')),
                 set_state (setIsRedirecting True),
                 perform (setTimeout 1000),
                 perform (routerPush (lit ''/dashboard''))])
             (\<lambda>error.
                set_state
                  (setAuthError
                     (case error of
                        ErrorObject message \<Rightarrow> message
                      | OtherValue \<Rightarrow> lit ''Google login failed. Please try again.''))))
          (set_state (setIsGoogleLoading False))]"

text \<open>
  The provider operation that \<open>handleSubmit\<close> awaits in the current mode, and the message
  it sets when that operation resolves.
\<close>

definition submit_operation :: "login_state \<Rightarrow> effect" where
  "submit_operation s =
     (if authMode s = signUp
      then createUserWithEmailAndPassword (email (formData s)) (password (formData s))
      else signInWithEmailAndPassword (email (formData s)) (password (formData s)))"

definition submit_success_message :: "login_state \<Rightarrow> jsstring" where
  "submit_success_message s =
     (if authMode s = signUp then lit ''Account created!'' else lit ''Login successful!'')"

text \<open>The form of the test "shows email error for invalid email format".\<close>

definition invalid_email_login_state :: login_state where
  "invalid_email_login_state =
     initial_login_state
       \<lparr>formData := \<lparr>email = lit ''invalid-email'', password = lit ''password123''\<rparr>\<rparr>"

text \<open>The form after the empty form has been submitted: both field errors are set.\<close>

definition both_errors_state :: login_state where
  "both_errors_state =
     login_after initial_login_state (fst (handleSubmit initial_login_state resolving))"

text \<open>Which steps of a run write one of the two loading flags.\<close>

fun sets_isLoading :: "login_update step \<Rightarrow> bool" where
  "sets_isLoading (Update (setIsLoading b)) = True"
| "sets_isLoading _ = False"

fun sets_isGoogleLoading :: "login_update step \<Rightarrow> bool" where
  "sets_isGoogleLoading (Update (setIsGoogleLoading b)) = True"
| "sets_isGoogleLoading _ = False"

subsection \<open>What the form renders\<close>

text \<open>
  \<open>{x && <div>{x}</div>}\<close> shows the element with the text \<open>x\<close> when \<open>x\<close> is truthy and
  nothing otherwise.
\<close>

definition shown :: "jsstring \<Rightarrow> jsstring option" where
  "shown m = (if truthy m then Some m else None)"

fun field_error_view :: "entry \<Rightarrow> jsstring option" where
  "field_error_view (Some (Some m)) = shown m"
| "field_error_view _ = None"

definition email_error_view :: "login_state \<Rightarrow> jsstring option" where
  "email_error_view st = field_error_view (get_entry (errors st) Email)"

definition password_error_view :: "login_state \<Rightarrow> jsstring option" where
  "password_error_view st = field_error_view (get_entry (errors st) Password)"

definition auth_error_view :: "login_state \<Rightarrow> jsstring option" where
  "auth_error_view st = shown (authError st)"

definition success_message_view :: "login_state \<Rightarrow> jsstring option" where
  "success_message_view st = shown (successMessage st)"

text \<open>The \<open>disabled\<close> attribute of the two buttons.\<close>

definition submit_button_disabled :: "login_state \<Rightarrow> bool" where
  "submit_button_disabled st = (isLoading st \<or> isGoogleLoading st)"

definition google_signin_button_disabled :: "login_state \<Rightarrow> bool" where
  "google_signin_button_disabled st = (isLoading st \<or> isGoogleLoading st)"

section \<open>The dashboard page (src/unnamed/part_000)\<close>

record dashboard_state =
  isSigningOut :: bool
  signOutMessage :: jsstring

datatype dashboard_update = setIsSigningOut bool | setSignOutMessage jsstring

fun apply_dashboard_update :: "dashboard_update \<Rightarrow> dashboard_state \<Rightarrow> dashboard_state" where
  "apply_dashboard_update (setIsSigningOut b) st = st\<lparr>isSigningOut := b\<rparr>"
| "apply_dashboard_update (setSignOutMessage m) st = st\<lparr>signOutMessage := m\<rparr>"

fun apply_dashboard_step :: "dashboard_state \<Rightarrow> dashboard_update step \<Rightarrow> dashboard_state" where
  "apply_dashboard_step st (Update u) = apply_dashboard_update u st"
| "apply_dashboard_step st (Effect e) = st"

definition dashboard_after ::
  "dashboard_state \<Rightarrow> dashboard_update step list \<Rightarrow> dashboard_state" where
  "dashboard_after st steps = foldl apply_dashboard_step st steps"

text \<open>
  The callback given to \<open>onAuthStateChanged\<close>. It reads \<open>isSigningOut\<close> of the render that
  subscribed it (the effect subscribes again whenever the flag changes); \<open>user\<close> is a user
  object or \<open>null\<close>.
\<close>

definition authStateCallback :: "dashboard_state \<Rightarrow> 'user option \<Rightarrow> dashboard_update run" where
  "authStateCallback s user =
     (if user = None \<and> \<not> isSigningOut s then perform (routerReplace (lit ''/login''))
      else skip)"

definition handleSignOut :: "provider \<Rightarrow> dashboard_update run" where
  "handleSignOut p =
     block
       [set_state (setIsSigningOut True),
        set_state (setSignOutMessage (lit ''Signed out successfully!'')),
        try_catch
          (block
             [await_provider p signOut,
              perform (setTimeout 1000),
              perform (routerReplace (lit ''/login''))])
          (\<lambda>error.
             block
               [set_state (setIsSigningOut False),
                set_state (setSignOutMessage (lit ''Sign out failed. Please try again.''))])]"

definition signout_message_view :: "dashboard_state \<Rightarrow> jsstring option" where
  "signout_message_view st = shown (signOutMessage st)"

section \<open>Basic facts\<close>

lemmas run_defs =
  skip_def set_state_def perform_def await_provider_def then_run_def try_catch_def
  try_finally_def

lemma lit_Nil [simp]: "lit [] = []"
  by (simp add: lit_def)

lemma lit_Cons_neq_Nil [simp]: "lit (c # cs) \<noteq> []"
  by (simp add: lit_def)

lemma length_lit [simp]: "length (lit s) = length s"
  by (simp add: lit_def)

lemma email_regex_test_Nil [simp]: "\<not> email_regex_test []"
  by (simp add: email_regex_test_def email_pattern_def)

lemma newErrors_email_entry:
  "email_entry (newErrors d) =
     (if email d = [] then Some (Some (lit ''Email is required''))
      else if \<not> email_regex_test (email d) then Some (Some (lit ''Please enter a valid email''))
      else None)"
  by (simp add: newErrors_def Let_def truthy_def no_errors_def)

lemma newErrors_password_entry:
  "password_entry (newErrors d) =
     (if password d = [] then Some (Some (lit ''Password is required''))
      else if length (password d) < 6
      then Some (Some (lit ''Password must be at least 6 characters''))
      else None)"
  by (simp add: newErrors_def Let_def truthy_def no_errors_def)

lemma keys_length_newErrors:
  "(keys_length (newErrors d) = 0) =
     (email d \<noteq> [] \<and> email_regex_test (email d) \<and> password d \<noteq> [] \<and>
      \<not> length (password d) < 6)"
  by (simp add: keys_length_def newErrors_email_entry newErrors_password_entry)

lemma handleSubmit_invalid:
  assumes "keys_length (newErrors (formData s)) \<noteq> 0"
  shows "handleSubmit s p =
     ([Effect preventDefault, Update (setSuccessMessage []), Update (setAuthError []),
       Update (setIsRedirecting False), Update (setErrors (newErrors (formData s)))], None)"
  using assms by (simp add: handleSubmit_def validateForm_def Let_def run_defs)

lemma handleSubmit_resolved:
  assumes "keys_length (newErrors (formData s)) = 0" and "p (submit_operation s) = None"
  shows "handleSubmit s p =
     ([Effect preventDefault, Update (setSuccessMessage []), Update (setAuthError []),
       Update (setIsRedirecting False), Update (setErrors (newErrors (formData s))),
       Update (setIsLoading True), Effect (submit_operation s),
       Update (setSuccessMessage (submit_success_message s)),
       Update (setFormData \<lparr>email = [], password = []\<rparr>), Update (setIsRedirecting True),
       Effect (setTimeout 1000), Effect (routerPush (lit ''/dashboard'')),
       Update (setIsLoading False)], None)"
  using assms
  by (cases "authMode s = signUp")
    (simp_all add: handleSubmit_def validateForm_def Let_def run_defs submit_operation_def
      submit_success_message_def)

lemma handleSubmit_rejected:
  assumes "keys_length (newErrors (formData s)) = 0" and "p (submit_operation s) = Some t"
  shows "handleSubmit s p =
     ([Effect preventDefault, Update (setSuccessMessage []), Update (setAuthError []),
       Update (setIsRedirecting False), Update (setErrors (newErrors (formData s))),
       Update (setIsLoading True), Effect (submit_operation s),
       Update (setAuthError
         (case t of ErrorObject message \<Rightarrow> message
          | OtherValue \<Rightarrow> lit ''Login failed. Please try again.'')),
       Update (setIsLoading False)], None)"
  using assms
  by (cases "authMode s = signUp")
    (simp_all add: handleSubmit_def validateForm_def Let_def run_defs submit_operation_def)

lemma handleGoogleSignIn_resolved:
  assumes "p signInWithPopup = None"
  shows "handleGoogleSignIn p =
     ([Update (setSuccessMessage []), Update (setAuthError []), Update (setIsRedirecting False),
       Update (setIsGoogleLoading True), Effect signInWithPopup,
       Update (setSuccessMessage (lit ''Login successful!'')), Update (setIsRedirecting True),
       Effect (setTimeout 1000), Effect (routerPush (lit ''/dashboard'')),
       Update (setIsGoogleLoading False)], None)"
  using assms by (simp add: handleGoogleSignIn_def run_defs)

lemma handleGoogleSignIn_rejected:
  assumes "p signInWithPopup = Some t"
  shows "handleGoogleSignIn p =
     ([Update (setSuccessMessage []), Update (setAuthError []), Update (setIsRedirecting False),
       Update (setIsGoogleLoading True), Effect signInWithPopup,
       Update (setAuthError
         (case t of ErrorObject message \<Rightarrow> message
          | OtherValue \<Rightarrow> lit ''Google login failed. Please try again.'')),
       Update (setIsGoogleLoading False)], None)"
  using assms by (simp add: handleGoogleSignIn_def run_defs)

lemma handleSignOut_resolved:
  assumes "p signOut = None"
  shows "handleSignOut p =
     ([Update (setIsSigningOut True),
       Update (setSignOutMessage (lit ''Signed out successfully!'')), Effect signOut,
       Effect (setTimeout 1000), Effect (routerReplace (lit ''/login''))], None)"
  using assms by (simp add: handleSignOut_def run_defs)

lemma handleSignOut_rejected:
  assumes "p signOut = Some t"
  shows "handleSignOut p =
     ([Update (setIsSigningOut True),
       Update (setSignOutMessage (lit ''Signed out successfully!'')), Effect signOut,
       Update (setIsSigningOut False),
       Update (setSignOutMessage (lit ''Sign out failed. Please try again.''))], None)"
  using assms by (simp add: handleSignOut_def run_defs)

lemma shown_lit [simp]: "shown (lit (c # cs)) = Some (lit (c # cs))"
  by (simp add: shown_def truthy_def)

lemma shown_Nil [simp]: "shown [] = None"
  by (simp add: shown_def truthy_def)

lemma field_error_view_None_iff: "(field_error_view e = None) = (\<not> entry_truthy e)"
  by (cases e rule: entry_truthy.cases) (simp_all add: shown_def)

lemma filled_email_ok: "email_regex_test (lit ''test@example.com'')"
  by (simp add: email_regex_test_def email_pattern_def lit_def not_space_at_def is_space_def)

lemma invalid_email_fails: "\<not> email_regex_test (lit ''invalid-email'')"
  by (simp add: email_regex_test_def email_pattern_def lit_def not_space_at_def is_space_def)

lemma filled_form [simp]:
  "formData filled_login_state =
     \<lparr>email = lit ''test@example.com'', password = lit ''password123''\<rparr>"
  "authMode filled_login_state = signIn"
  by (simp_all add: filled_login_state_def initial_login_state_def)

lemma filled_valid: "keys_length (newErrors (formData filled_login_state)) = 0"
  by (simp add: keys_length_newErrors filled_email_ok)

lemma filled_flags [simp]:
  "isLoading filled_login_state = False" "isGoogleLoading filled_login_state = False"
  by (simp_all add: filled_login_state_def initial_login_state_def)

lemma sets_isGoogleLoading_handleSubmit:
  "filter sets_isGoogleLoading (fst (handleSubmit s p)) = []"
proof (cases "keys_length (newErrors (formData s)) = 0")
  case False
  then show ?thesis by (simp add: handleSubmit_invalid)
next
  case True
  show ?thesis
  proof (cases "p (submit_operation s)")
    case None
    with True show ?thesis by (simp add: handleSubmit_resolved)
  next
    case (Some t)
    with True show ?thesis by (simp add: handleSubmit_rejected)
  qed
qed

lemma sets_isLoading_handleGoogleSignIn:
  "filter sets_isLoading (fst (handleGoogleSignIn p)) = []"
  by (cases "p signInWithPopup")
    (simp_all add: handleGoogleSignIn_resolved handleGoogleSignIn_rejected)

lemma snd_handleSubmit: "snd (handleSubmit s p) = None"
proof (cases "keys_length (newErrors (formData s)) = 0")
  case False
  then show ?thesis by (simp add: handleSubmit_invalid)
next
  case True
  show ?thesis
  proof (cases "p (submit_operation s)")
    case None
    with True show ?thesis by (simp add: handleSubmit_resolved)
  next
    case (Some t)
    with True show ?thesis by (simp add: handleSubmit_rejected)
  qed
qed

lemma snd_handleGoogleSignIn: "snd (handleGoogleSignIn p) = None"
  by (cases "p signInWithPopup")
    (simp_all add: handleGoogleSignIn_resolved handleGoogleSignIn_rejected)

lemma shown_eq: "shown m = (if m = [] then None else Some m)"
  by (simp add: shown_def truthy_def)

lemma email_error_view_validateForm:
  "email_error_view (login_after cur (fst (fst (validateForm s)))) =
     (if email (formData s) = [] then Some (lit ''Email is required'')
      else if \<not> email_regex_test (email (formData s))
      then Some (lit ''Please enter a valid email'') else None)"
  by (simp add: validateForm_def Let_def set_state_def login_after_def email_error_view_def
      newErrors_email_entry)

lemma required_neq_format: "lit ''Email is required'' \<noteq> lit ''Please enter a valid email''"
proof
  assume "lit ''Email is required'' = lit ''Please enter a valid email''"
  then have "length (lit ''Email is required'') = length (lit ''Please enter a valid email'')"
    by (rule arg_cong)
  then show False by simp
qed

lemma get_set_entry:
  "get_entry (set_entry e f x) g = (if g = f then x else get_entry e g)"
  by (cases f; cases g) simp_all

section \<open>The language of the email pattern\<close>

lemma rx_match_Literal:
  "rx_match (Literal c # r) s = (\<exists>t. s = c # t \<and> rx_match r t)"
  by (cases s) auto

lemma rx_match_OneOrMore:
  "rx_match (OneOrMore P # r) s =
     (\<exists>a t. s = a @ t \<and> a \<noteq> [] \<and> list_all P a \<and> rx_match r t)"
proof (induction s)
  case Nil
  show ?case by simp
next
  case (Cons x xs)
  show ?case
  proof
    assume m: "rx_match (OneOrMore P # r) (x # xs)"
    then have px: "P x" by simp
    from m have "rx_match (OneOrMore P # r) xs \<or> rx_match r xs" by simp
    then show "\<exists>a t. x # xs = a @ t \<and> a \<noteq> [] \<and> list_all P a \<and> rx_match r t"
    proof
      assume "rx_match (OneOrMore P # r) xs"
      with Cons.IH obtain a t where "xs = a @ t" "list_all P a" "rx_match r t" by blast
      with px have "x # xs = (x # a) @ t \<and> x # a \<noteq> [] \<and> list_all P (x # a) \<and> rx_match r t"
        by simp
      then show ?thesis by blast
    next
      assume "rx_match r xs"
      with px have "x # xs = [x] @ xs \<and> [x] \<noteq> [] \<and> list_all P [x] \<and> rx_match r xs"
        by simp
      then show ?thesis by blast
    qed
  next
    assume "\<exists>a t. x # xs = a @ t \<and> a \<noteq> [] \<and> list_all P a \<and> rx_match r t"
    then obtain a t where at: "x # xs = a @ t" "a \<noteq> []" "list_all P a" "rx_match r t"
      by blast
    then obtain a' where a: "a = x # a'" by (cases a) auto
    with at have px: "P x" and xs: "xs = a' @ t" and pa: "list_all P a'" by auto
    show "rx_match (OneOrMore P # r) (x # xs)"
    proof (cases "a' = []")
      case True
      with xs at(4) px show ?thesis by simp
    next
      case False
      with xs pa at(4) have "rx_match (OneOrMore P # r) xs"
        using Cons.IH by blast
      with px show ?thesis by simp
    qed
  qed
qed

lemma email_regex_test_iff:
  "email_regex_test s =
     (\<exists>a b c. s = a @ [0x0040] @ b @ [0x002E] @ c \<and> a \<noteq> [] \<and> b \<noteq> [] \<and> c \<noteq> [] \<and>
        list_all not_space_at a \<and> list_all not_space_at b \<and> list_all not_space_at c)"
  unfolding email_regex_test_def email_pattern_def
  by (simp add: rx_match_OneOrMore rx_match_Literal) blast

section \<open>Properties of the login form\<close>

text \<open>
  C1. When the email or the password is empty or fails its check (the email does not match
  the pattern, the password has fewer than 6 code units), \<open>handleSubmit\<close> resets the
  messages, stores the errors that \<open>validateForm\<close> computed and returns: its run holds no
  provider call, whatever the provider would answer. The email error then shown is
  "Email is required" for an empty email and "Please enter a valid email" for a non-empty
  one that fails the pattern; the password error is "Password is required" for an empty
  password and "Password must be at least 6 characters" for a short one.
\<close>

theorem C1_invalid_submit:
  assumes "email (formData s) = [] \<or> \<not> email_regex_test (email (formData s)) \<or>
           password (formData s) = [] \<or> length (password (formData s)) < 6"
  shows "handleSubmit s p =
           ([Effect preventDefault, Update (setSuccessMessage []), Update (setAuthError []),
             Update (setIsRedirecting False), Update (setErrors (newErrors (formData s)))],
            None) \<and>
         provider_calls (fst (handleSubmit s p)) = [] \<and>
         email_error_view (login_after cur (fst (handleSubmit s p))) =
           (if email (formData s) = [] then Some (lit ''Email is required'')
            else if \<not> email_regex_test (email (formData s))
            then Some (lit ''Please enter a valid email'') else None) \<and>
         password_error_view (login_after cur (fst (handleSubmit s p))) =
           (if password (formData s) = [] then Some (lit ''Password is required'')
            else if length (password (formData s)) < 6
            then Some (lit ''Password must be at least 6 characters'') else None)"
proof -
  from assms have "keys_length (newErrors (formData s)) \<noteq> 0"
    by (auto simp: keys_length_newErrors)
  then have run: "handleSubmit s p =
      ([Effect preventDefault, Update (setSuccessMessage []), Update (setAuthError []),
        Update (setIsRedirecting False), Update (setErrors (newErrors (formData s)))], None)"
    by (rule handleSubmit_invalid)
  have "errors (login_after cur (fst (handleSubmit s p))) = newErrors (formData s)"
    by (simp add: run login_after_def)
  then show ?thesis
    by (simp add: run provider_calls_def email_error_view_def password_error_view_def
        newErrors_email_entry newErrors_password_entry)
qed

theorem C1_invalid_submit_witness:
  "(email (formData initial_login_state) = [] \<or>
    \<not> email_regex_test (email (formData initial_login_state)) \<or>
    password (formData initial_login_state) = [] \<or>
    length (password (formData initial_login_state)) < 6) \<and>
   provider_calls (fst (handleSubmit initial_login_state resolving)) = [] \<and>
   email_error_view
     (login_after initial_login_state (fst (handleSubmit initial_login_state resolving))) =
     Some (lit ''Email is required'') \<and>
   password_error_view
     (login_after initial_login_state (fst (handleSubmit initial_login_state resolving))) =
     Some (lit ''Password is required'')"
proof -
  have h: "email (formData initial_login_state) = [] \<or>
      \<not> email_regex_test (email (formData initial_login_state)) \<or>
      password (formData initial_login_state) = [] \<or>
      length (password (formData initial_login_state)) < 6"
    by (simp add: initial_login_state_def)
  have e: "email (formData initial_login_state) = []"
    and pw: "password (formData initial_login_state) = []"
    by (simp_all add: initial_login_state_def)
  from C1_invalid_submit [of initial_login_state resolving initial_login_state, OF h, THEN conjunct2]
  show ?thesis using h by (simp add: e pw)
qed

text \<open>
  C2. When the form passes validation and the provider operation of the current mode
  resolves, \<open>handleSubmit\<close> sets the success message, stores the empty form, raises the
  redirecting flag, waits 1000 ms and then pushes the dashboard route. The form is empty
  when the delay starts and when the handler ends.
\<close>

theorem C2_successful_submit:
  assumes "email (formData s) \<noteq> []" and "email_regex_test (email (formData s))"
    and "6 \<le> length (password (formData s))" and "p (submit_operation s) = None"
  shows "handleSubmit s p =
           ([Effect preventDefault, Update (setSuccessMessage []), Update (setAuthError []),
             Update (setIsRedirecting False), Update (setErrors (newErrors (formData s))),
             Update (setIsLoading True), Effect (submit_operation s),
             Update (setSuccessMessage (submit_success_message s)),
             Update (setFormData \<lparr>email = [], password = []\<rparr>),
             Update (setIsRedirecting True), Effect (setTimeout 1000),
             Effect (routerPush (lit ''/dashboard'')), Update (setIsLoading False)], None) \<and>
         formData (login_after cur (fst (handleSubmit s p))) = \<lparr>email = [], password = []\<rparr> \<and>
         formData (login_after cur (before_effect (setTimeout 1000) (fst (handleSubmit s p)))) =
           \<lparr>email = [], password = []\<rparr> \<and>
         successMessage
           (login_after cur (before_effect (setTimeout 1000) (fst (handleSubmit s p)))) =
           submit_success_message s \<and>
         isRedirecting
           (login_after cur (before_effect (setTimeout 1000) (fst (handleSubmit s p))))"
proof -
  from assms have "keys_length (newErrors (formData s)) = 0"
    by (auto simp: keys_length_newErrors)
  then have run: "handleSubmit s p =
      ([Effect preventDefault, Update (setSuccessMessage []), Update (setAuthError []),
        Update (setIsRedirecting False), Update (setErrors (newErrors (formData s))),
        Update (setIsLoading True), Effect (submit_operation s),
        Update (setSuccessMessage (submit_success_message s)),
        Update (setFormData \<lparr>email = [], password = []\<rparr>),
        Update (setIsRedirecting True), Effect (setTimeout 1000),
        Effect (routerPush (lit ''/dashboard'')), Update (setIsLoading False)], None)"
    using assms(4) by (rule handleSubmit_resolved)
  have op: "submit_operation s \<noteq> setTimeout 1000"
    by (simp add: submit_operation_def)
  show ?thesis
    by (simp add: run login_after_def before_effect_def op)
qed

theorem C2_successful_submit_witness:
  "email (formData filled_login_state) \<noteq> [] \<and>
   email_regex_test (email (formData filled_login_state)) \<and>
   6 \<le> length (password (formData filled_login_state)) \<and>
   resolving (submit_operation filled_login_state) = None \<and>
   formData (login_after filled_login_state (fst (handleSubmit filled_login_state resolving))) =
     \<lparr>email = [], password = []\<rparr> \<and>
   navigations (fst (handleSubmit filled_login_state resolving)) =
     [Effect (routerPush (lit ''/dashboard''))]"
proof -
  have h1: "email (formData filled_login_state) \<noteq> []"
    and h2: "email_regex_test (email (formData filled_login_state))"
    and h3: "6 \<le> length (password (formData filled_login_state))"
    and h4: "resolving (submit_operation filled_login_state) = None"
    by (simp_all add: filled_email_ok resolving_def)
  note run = C2_successful_submit [of filled_login_state resolving filled_login_state, OF h1 h2 h3 h4]
  from run [THEN conjunct1]
  have nav: "navigations (fst (handleSubmit filled_login_state resolving)) =
      [Effect (routerPush (lit ''/dashboard''))]"
    by (simp add: navigations_def submit_operation_def)
  from run [THEN conjunct2, THEN conjunct1] h1 h2 h3 h4 nav show ?thesis by simp
qed

text \<open>
  C3, as stated: while one path's loading flag is set, the trigger of the other path is not
  disabled. It fails. While \<open>handleSubmit\<close> waits for the provider, \<open>isLoading\<close> is set
  and the Google button is disabled; while \<open>handleGoogleSignIn\<close> waits for the provider,
  \<open>isGoogleLoading\<close> is set and the submit button is disabled.
\<close>

theorem C3_triggers_block_each_other_counterexample:
  "isLoading
     (login_after filled_login_state
        (before_provider_call (fst (handleSubmit filled_login_state resolving)))) \<and>
   google_signin_button_disabled
     (login_after filled_login_state
        (before_provider_call (fst (handleSubmit filled_login_state resolving)))) \<and>
   isGoogleLoading
     (login_after filled_login_state
        (before_provider_call (fst (handleGoogleSignIn resolving)))) \<and>
   submit_button_disabled
     (login_after filled_login_state
        (before_provider_call (fst (handleGoogleSignIn resolving))))"
proof -
  have "resolving (submit_operation filled_login_state) = None"
    and "resolving signInWithPopup = None"
    by (simp_all add: resolving_def)
  then show ?thesis
    by (simp add: handleSubmit_resolved [OF filled_valid] handleGoogleSignIn_resolved
        before_provider_call_def login_after_def google_signin_button_disabled_def
        submit_button_disabled_def submit_operation_def)
qed

text \<open>
  C3, amended. The two paths keep separate loading flags: \<open>handleSubmit\<close> never writes
  \<open>isGoogleLoading\<close> and \<open>handleGoogleSignIn\<close> never writes \<open>isLoading\<close>. Each of the two
  buttons is disabled exactly when either flag is set, so neither path can be started from
  its button while the other is in progress.
\<close>

theorem C3_separate_flags_shared_disabling:
  "filter sets_isGoogleLoading (fst (handleSubmit s p)) = [] \<and>
   filter sets_isLoading (fst (handleGoogleSignIn q)) = [] \<and>
   submit_button_disabled st = (isLoading st \<or> isGoogleLoading st) \<and>
   google_signin_button_disabled st = (isLoading st \<or> isGoogleLoading st)"
  by (simp add: sets_isGoogleLoading_handleSubmit sets_isLoading_handleGoogleSignIn
      submit_button_disabled_def google_signin_button_disabled_def)

text \<open>
  C5, as stated: every provider failure is shown as the auth-error message. It fails when
  the thrown value is an \<open>Error\<close> whose message is the empty string: \<open>authError\<close> is set to
  the empty string, which is falsy, and the form renders no auth-error element.
\<close>

theorem C5_empty_error_message_counterexample:
  "auth_error_view
     (login_after filled_login_state
        (fst (handleSubmit filled_login_state (rejecting (ErrorObject []))))) = None \<and>
   auth_error_view
     (login_after initial_login_state
        (fst (handleGoogleSignIn (rejecting (ErrorObject []))))) = None"
proof -
  have "rejecting (ErrorObject []) (submit_operation filled_login_state) = Some (ErrorObject [])"
    and "rejecting (ErrorObject []) signInWithPopup = Some (ErrorObject [])"
    by (simp_all add: rejecting_def)
  then show ?thesis
    by (simp add: handleSubmit_rejected [OF filled_valid] handleGoogleSignIn_rejected
        login_after_def auth_error_view_def)
qed

text \<open>
  C5, amended. When the provider operation of \<open>handleSubmit\<close> (on a valid form) or of
  \<open>handleGoogleSignIn\<close> rejects, the handler completes normally (nothing is thrown out of
  it) and \<open>authError\<close> is set to the message of the thrown \<open>Error\<close>, or to the fixed
  fallback text of the handler when the thrown value is not an \<open>Error\<close>. The auth-error
  element shows that text whenever it is not empty, so always for the fallback text.
\<close>

theorem C5_provider_failure_caught:
  assumes "email (formData s) \<noteq> []" and "email_regex_test (email (formData s))"
    and "6 \<le> length (password (formData s))" and "p (submit_operation s) = Some t"
    and "q signInWithPopup = Some u"
  shows "snd (handleSubmit s p) = None \<and>
         authError (login_after cur (fst (handleSubmit s p))) =
           (case t of ErrorObject message \<Rightarrow> message
            | OtherValue \<Rightarrow> lit ''Login failed. Please try again.'') \<and>
         auth_error_view (login_after cur (fst (handleSubmit s p))) =
           (case t of ErrorObject message \<Rightarrow> if message = [] then None else Some message
            | OtherValue \<Rightarrow> Some (lit ''Login failed. Please try again.'')) \<and>
         snd (handleGoogleSignIn q) = None \<and>
         authError (login_after cur (fst (handleGoogleSignIn q))) =
           (case u of ErrorObject message \<Rightarrow> message
            | OtherValue \<Rightarrow> lit ''Google login failed. Please try again.'') \<and>
         auth_error_view (login_after cur (fst (handleGoogleSignIn q))) =
           (case u of ErrorObject message \<Rightarrow> if message = [] then None else Some message
            | OtherValue \<Rightarrow> Some (lit ''Google login failed. Please try again.''))"
proof -
  from assms have valid: "keys_length (newErrors (formData s)) = 0"
    by (auto simp: keys_length_newErrors)
  have a: "authError (login_after cur (fst (handleSubmit s p))) =
      (case t of ErrorObject message \<Rightarrow> message
       | OtherValue \<Rightarrow> lit ''Login failed. Please try again.'')"
    by (simp add: handleSubmit_rejected [of s p t, OF valid assms(4)] login_after_def)
  have b: "authError (login_after cur (fst (handleGoogleSignIn q))) =
      (case u of ErrorObject message \<Rightarrow> message
       | OtherValue \<Rightarrow> lit ''Google login failed. Please try again.'')"
    by (simp add: handleGoogleSignIn_rejected [of q u, OF assms(5)] login_after_def)
  have c: "auth_error_view (login_after cur (fst (handleSubmit s p))) =
      (case t of ErrorObject message \<Rightarrow> if message = [] then None else Some message
       | OtherValue \<Rightarrow> Some (lit ''Login failed. Please try again.''))"
    unfolding auth_error_view_def a by (cases t) (simp_all add: shown_eq)
  have d: "auth_error_view (login_after cur (fst (handleGoogleSignIn q))) =
      (case u of ErrorObject message \<Rightarrow> if message = [] then None else Some message
       | OtherValue \<Rightarrow> Some (lit ''Google login failed. Please try again.''))"
    unfolding auth_error_view_def b by (cases u) (simp_all add: shown_eq)
  from a b c d show ?thesis
    by (simp only: snd_handleSubmit snd_handleGoogleSignIn simp_thms)
qed

theorem C5_provider_failure_caught_witness:
  "email (formData filled_login_state) \<noteq> [] \<and>
   email_regex_test (email (formData filled_login_state)) \<and>
   6 \<le> length (password (formData filled_login_state)) \<and>
   rejecting (ErrorObject (lit ''Firebase: Error (auth/invalid-credential).''))
     (submit_operation filled_login_state) =
     Some (ErrorObject (lit ''Firebase: Error (auth/invalid-credential).'')) \<and>
   rejecting OtherValue signInWithPopup = Some OtherValue \<and>
   snd (handleSubmit filled_login_state
          (rejecting (ErrorObject (lit ''Firebase: Error (auth/invalid-credential).'')))) =
     None \<and>
   auth_error_view
     (login_after filled_login_state
        (fst (handleSubmit filled_login_state
           (rejecting (ErrorObject (lit ''Firebase: Error (auth/invalid-credential).'')))))) =
     Some (lit ''Firebase: Error (auth/invalid-credential).'') \<and>
   snd (handleGoogleSignIn (rejecting OtherValue)) = None \<and>
   auth_error_view
     (login_after filled_login_state (fst (handleGoogleSignIn (rejecting OtherValue)))) =
     Some (lit ''Google login failed. Please try again.'')"
proof -
  have h1: "email (formData filled_login_state) \<noteq> []"
    and h2: "email_regex_test (email (formData filled_login_state))"
    and h3: "6 \<le> length (password (formData filled_login_state))"
    and h4: "rejecting (ErrorObject (lit ''Firebase: Error (auth/invalid-credential).''))
        (submit_operation filled_login_state) =
      Some (ErrorObject (lit ''Firebase: Error (auth/invalid-credential).''))"
    and h5: "rejecting OtherValue signInWithPopup = Some OtherValue"
    by (simp_all add: filled_email_ok rejecting_def)
  from C5_provider_failure_caught [of filled_login_state
      "rejecting (ErrorObject (lit ''Firebase: Error (auth/invalid-credential).''))"
      "ErrorObject (lit ''Firebase: Error (auth/invalid-credential).'')"
      "rejecting OtherValue" OtherValue filled_login_state, OF h1 h2 h3 h4 h5]
  show ?thesis using h1 h2 h3 h4 h5 by simp
qed

text \<open>
  C7. After \<open>validateForm\<close>, for a non-empty email the error shown is
  "Please enter a valid email" exactly when the email fails the pattern. For an empty email
  the error shown is "Email is required", not the format error, although the empty string
  fails the pattern as well.
\<close>

theorem C7_email_format_error:
  "(email (formData s) \<noteq> [] \<longrightarrow>
      (email_error_view (login_after cur (fst (fst (validateForm s)))) =
         Some (lit ''Please enter a valid email'')) =
      (\<not> email_regex_test (email (formData s)))) \<and>
   (email (formData s) = [] \<longrightarrow>
      email_error_view (login_after cur (fst (fst (validateForm s)))) =
        Some (lit ''Email is required'') \<and>
      email_error_view (login_after cur (fst (fst (validateForm s)))) \<noteq>
        Some (lit ''Please enter a valid email'') \<and>
      \<not> email_regex_test (email (formData s)))"
  by (simp add: email_error_view_validateForm required_neq_format)

theorem C7_email_format_error_witness:
  "email (formData invalid_email_login_state) \<noteq> [] \<and>
   \<not> email_regex_test (email (formData invalid_email_login_state)) \<and>
   email_error_view
     (login_after invalid_email_login_state
        (fst (fst (validateForm invalid_email_login_state)))) =
     Some (lit ''Please enter a valid email'') \<and>
   email (formData filled_login_state) \<noteq> [] \<and>
   email_regex_test (email (formData filled_login_state)) \<and>
   email_error_view
     (login_after filled_login_state (fst (fst (validateForm filled_login_state)))) \<noteq>
     Some (lit ''Please enter a valid email'') \<and>
   email (formData initial_login_state) = [] \<and>
   email_error_view
     (login_after initial_login_state (fst (fst (validateForm initial_login_state)))) =
     Some (lit ''Email is required'')"
proof -
  have h0: "email (formData invalid_email_login_state) \<noteq> []"
    and h0': "\<not> email_regex_test (email (formData invalid_email_login_state))"
    by (simp_all add: invalid_email_login_state_def initial_login_state_def
        invalid_email_fails)
  have h1: "email (formData filled_login_state) \<noteq> []"
    and h2: "email_regex_test (email (formData filled_login_state))"
    and h3: "email (formData initial_login_state) = []"
    by (simp_all add: filled_email_ok initial_login_state_def)
  from C7_email_format_error [of invalid_email_login_state invalid_email_login_state,
      THEN conjunct1]
    C7_email_format_error [of filled_login_state filled_login_state, THEN conjunct1]
    C7_email_format_error [of initial_login_state initial_login_state, THEN conjunct2]
  show ?thesis using h0 h0' h1 h2 h3 by simp
qed

text \<open>
  C8. \<open>handleChange\<close> on a field whose error is shown sets that field's entry of the errors
  object to \<open>undefined\<close>, so that its error is no longer shown, and leaves the entry of every
  other field as it was. On a field whose error is not shown it leaves the errors object
  unchanged.
\<close>

theorem C8_edit_clears_own_error:
  "(field_error_view (get_entry (errors s) name) \<noteq> None \<longrightarrow>
      get_entry (errors (login_after s (fst (handleChange s name v)))) name = Some None \<and>
      field_error_view (get_entry (errors (login_after s (fst (handleChange s name v)))) name) =
        None \<and>
      (\<forall>other. other \<noteq> name \<longrightarrow>
         get_entry (errors (login_after s (fst (handleChange s name v)))) other =
           get_entry (errors s) other)) \<and>
   (field_error_view (get_entry (errors s) name) = None \<longrightarrow>
      errors (login_after s (fst (handleChange s name v))) = errors s)"
proof (cases "entry_truthy (get_entry (errors s) name)")
  case True
  then have "errors (login_after s (fst (handleChange s name v))) =
      set_entry (errors s) name (Some None)"
    by (cases name) (simp_all add: handleChange_def run_defs login_after_def)
  with True show ?thesis
    by (simp add: field_error_view_None_iff get_set_entry)
next
  case False
  then have "errors (login_after s (fst (handleChange s name v))) = errors s"
    by (cases name) (simp_all add: handleChange_def run_defs login_after_def)
  with False show ?thesis
    by (simp add: field_error_view_None_iff)
qed

theorem C8_edit_clears_own_error_witness:
  "field_error_view (get_entry (errors both_errors_state) Email) \<noteq> None \<and>
   email_error_view
     (login_after both_errors_state (fst (handleChange both_errors_state Email (lit ''t'')))) =
     None \<and>
   password_error_view
     (login_after both_errors_state (fst (handleChange both_errors_state Email (lit ''t'')))) =
     Some (lit ''Password is required'') \<and>
   field_error_view (get_entry (errors initial_login_state) Email) = None \<and>
   errors
     (login_after initial_login_state (fst (handleChange initial_login_state Email (lit ''t'')))) =
     errors initial_login_state"
proof -
  have e: "errors both_errors_state =
      \<lparr>email_entry = Some (Some (lit ''Email is required'')),
       password_entry = Some (Some (lit ''Password is required''))\<rparr>"
  proof -
    have inv: "keys_length (newErrors (formData initial_login_state)) \<noteq> 0"
      by (simp add: keys_length_newErrors initial_login_state_def)
    have new: "newErrors (formData initial_login_state) =
        \<lparr>email_entry = Some (Some (lit ''Email is required'')),
         password_entry = Some (Some (lit ''Password is required''))\<rparr>"
      by (simp add: initial_login_state_def newErrors_def Let_def truthy_def no_errors_def)
    show ?thesis
      by (simp add: both_errors_state_def handleSubmit_invalid [OF inv] login_after_def new)
  qed
  have h1: "field_error_view (get_entry (errors both_errors_state) Email) \<noteq> None"
    by (simp add: e)
  have h2: "field_error_view (get_entry (errors initial_login_state) Email) = None"
    by (simp add: initial_login_state_def no_errors_def)
  note edit = C8_edit_clears_own_error [of both_errors_state Email "lit ''t''", THEN conjunct1,
      rule_format, OF h1]
  from edit have own: "email_error_view
      (login_after both_errors_state (fst (handleChange both_errors_state Email (lit ''t'')))) =
      None"
    by (simp add: email_error_view_def)
  from edit have "get_entry
      (errors (login_after both_errors_state
         (fst (handleChange both_errors_state Email (lit ''t''))))) Password =
      get_entry (errors both_errors_state) Password"
    by blast
  then have other: "password_error_view
      (login_after both_errors_state (fst (handleChange both_errors_state Email (lit ''t'')))) =
      Some (lit ''Password is required'')"
    by (simp add: password_error_view_def e)
  from C8_edit_clears_own_error [of initial_login_state Email "lit ''t''", THEN conjunct2,
      rule_format, OF h2]
  show ?thesis using h1 h2 own other by simp
qed

text \<open>
  C9. When the form passes validation and the provider operation rejects, the run of
  \<open>handleSubmit\<close> holds no \<open>setFormData\<close> and no navigation: the form data is what it was
  and the dashboard route is not pushed.
\<close>

theorem C9_failed_submit_keeps_form:
  assumes "email (formData s) \<noteq> []" and "email_regex_test (email (formData s))"
    and "6 \<le> length (password (formData s))" and "p (submit_operation s) = Some t"
  shows "handleSubmit s p =
           ([Effect preventDefault, Update (setSuccessMessage []), Update (setAuthError []),
             Update (setIsRedirecting False), Update (setErrors (newErrors (formData s))),
             Update (setIsLoading True), Effect (submit_operation s),
             Update (setAuthError
               (case t of ErrorObject message \<Rightarrow> message
                | OtherValue \<Rightarrow> lit ''Login failed. Please try again.'')),
             Update (setIsLoading False)], None) \<and>
         formData (login_after cur (fst (handleSubmit s p))) = formData cur \<and>
         navigations (fst (handleSubmit s p)) = []"
proof -
  from assms have valid: "keys_length (newErrors (formData s)) = 0"
    by (auto simp: keys_length_newErrors)
  have nav: "\<not> is_navigation (Effect (submit_operation s) :: login_update step)"
    by (simp add: submit_operation_def)
  show ?thesis
    by (simp add: handleSubmit_rejected [of s p t, OF valid assms(4)] login_after_def navigations_def
        nav)
qed

theorem C9_failed_submit_keeps_form_witness:
  "email (formData filled_login_state) \<noteq> [] \<and>
   email_regex_test (email (formData filled_login_state)) \<and>
   6 \<le> length (password (formData filled_login_state)) \<and>
   rejecting OtherValue (submit_operation filled_login_state) = Some OtherValue \<and>
   formData
     (login_after filled_login_state
        (fst (handleSubmit filled_login_state (rejecting OtherValue)))) =
     \<lparr>email = lit ''test@example.com'', password = lit ''password123''\<rparr> \<and>
   navigations (fst (handleSubmit filled_login_state (rejecting OtherValue))) = []"
proof -
  have h1: "email (formData filled_login_state) \<noteq> []"
    and h2: "email_regex_test (email (formData filled_login_state))"
    and h3: "6 \<le> length (password (formData filled_login_state))"
    and h4: "rejecting OtherValue (submit_operation filled_login_state) = Some OtherValue"
    by (simp_all add: filled_email_ok rejecting_def)
  from C9_failed_submit_keeps_form [of filled_login_state "rejecting OtherValue" OtherValue
      filled_login_state, OF h1 h2 h3 h4, THEN conjunct2]
  show ?thesis using h1 h2 h3 h4 by simp
qed

section \<open>Properties of the dashboard page\<close>

text \<open>
  C4. The callback of the auth-state subscription replaces the route by the login page when
  it is called with no user while the signing-out flag it reads is not set. With a user, or
  with the flag set, it does nothing.
\<close>

theorem C4_auth_state_callback:
  "(user = None \<and> \<not> isSigningOut s \<longrightarrow>
      authStateCallback s user = ([Effect (routerReplace (lit ''/login''))], None)) \<and>
   (user \<noteq> None \<or> isSigningOut s \<longrightarrow> authStateCallback s user = ([], None))"
  by (simp add: authStateCallback_def perform_def skip_def)

theorem C4_auth_state_callback_witness:
  "(None :: unit option) = None \<and>
   \<not> isSigningOut \<lparr>isSigningOut = False, signOutMessage = []\<rparr> \<and>
   authStateCallback \<lparr>isSigningOut = False, signOutMessage = []\<rparr> (None :: unit option) =
     ([Effect (routerReplace (lit ''/login''))], None) \<and>
   Some () \<noteq> None \<and>
   authStateCallback \<lparr>isSigningOut = False, signOutMessage = []\<rparr> (Some ()) = ([], None) \<and>
   isSigningOut \<lparr>isSigningOut = True, signOutMessage = []\<rparr> \<and>
   authStateCallback \<lparr>isSigningOut = True, signOutMessage = []\<rparr> (None :: unit option) =
     ([], None)"
  using C4_auth_state_callback [of "None :: unit option"
      "\<lparr>isSigningOut = False, signOutMessage = []\<rparr>"]
    C4_auth_state_callback [of "Some ()" "\<lparr>isSigningOut = False, signOutMessage = []\<rparr>"]
    C4_auth_state_callback [of "None :: unit option"
      "\<lparr>isSigningOut = True, signOutMessage = []\<rparr>"]
  by simp

text \<open>
  C6. When the provider's sign-out rejects, \<open>handleSignOut\<close> resets the signing-out flag to
  false, sets the message "Sign out failed. Please try again." and performs no navigation.
\<close>

theorem C6_sign_out_failure:
  assumes "p signOut = Some t"
  shows "handleSignOut p =
           ([Update (setIsSigningOut True),
             Update (setSignOutMessage (lit ''Signed out successfully!'')), Effect signOut,
             Update (setIsSigningOut False),
             Update (setSignOutMessage (lit ''Sign out failed. Please try again.''))], None) \<and>
         isSigningOut (dashboard_after cur (fst (handleSignOut p))) = False \<and>
         signOutMessage (dashboard_after cur (fst (handleSignOut p))) =
           lit ''Sign out failed. Please try again.'' \<and>
         signout_message_view (dashboard_after cur (fst (handleSignOut p))) =
           Some (lit ''Sign out failed. Please try again.'') \<and>
         navigations (fst (handleSignOut p)) = []"
  by (simp add: handleSignOut_rejected [of p t, OF assms] dashboard_after_def
      signout_message_view_def navigations_def)

theorem C6_sign_out_failure_witness:
  "rejecting OtherValue signOut = Some OtherValue \<and>
   isSigningOut
     (dashboard_after \<lparr>isSigningOut = False, signOutMessage = []\<rparr>
        (fst (handleSignOut (rejecting OtherValue)))) = False \<and>
   signout_message_view
     (dashboard_after \<lparr>isSigningOut = False, signOutMessage = []\<rparr>
        (fst (handleSignOut (rejecting OtherValue)))) =
     Some (lit ''Sign out failed. Please try again.'') \<and>
   navigations (fst (handleSignOut (rejecting OtherValue))) = []"
proof -
  have h: "rejecting OtherValue signOut = Some OtherValue"
    by (simp add: rejecting_def)
  from C6_sign_out_failure [of "rejecting OtherValue" OtherValue
      "\<lparr>isSigningOut = False, signOutMessage = []\<rparr>", OF h, THEN conjunct2]
  show ?thesis using h by simp
qed

text \<open>
  C10. Whatever the provider answers, \<open>handleSignOut\<close> has raised the signing-out flag and
  set the message "Signed out successfully!" when it calls the provider's sign-out, which it
  does exactly once: the message is shown while that call is pending, also when the call
  then fails.
\<close>

theorem C10_success_message_before_sign_out:
  "before_provider_call (fst (handleSignOut p)) =
     [Update (setIsSigningOut True),
      Update (setSignOutMessage (lit ''Signed out successfully!''))] \<and>
   provider_calls (fst (handleSignOut p)) = [Effect signOut] \<and>
   isSigningOut (dashboard_after cur (before_provider_call (fst (handleSignOut p)))) \<and>
   signout_message_view (dashboard_after cur (before_provider_call (fst (handleSignOut p)))) =
     Some (lit ''Signed out successfully!'')"
  by (cases "p signOut")
    (simp_all add: handleSignOut_resolved handleSignOut_rejected before_provider_call_def
      provider_calls_def dashboard_after_def signout_message_view_def)

end
